theory Spec2Isabelle
  imports Main "HOL-Library.Word"
begin

unbundle bit_operations_syntax

section \<open>Data model of \<^verbatim>\<open>globaleaks/handlers/authentication.py\<close>\<close>

text \<open>
  The exceptions that the login code can end with. The first three are the ones of
  \<^verbatim>\<open>globaleaks.rest.errors\<close> raised by the handlers themselves; the others are
  raised by what the code calls: a missing dictionary key, a malformed address or an
  empty \<^verbatim>\<open>randint\<close> range, and \<^verbatim>\<open>one_or_none()\<close> on more than one row.
\<close>

datatype error =
    InvalidAuthentication
  | TorNetworkRequired
  | AccessLocationInvalid
  | KeyError
  | ValueError
  | MultipleResultsFound

text \<open>A row of \<^verbatim>\<open>models.User\<close>, with the columns that the login code reads or writes.\<close>

record user =
  u_id :: string
  u_tid :: int
  u_username :: string
  u_salt :: string
  u_password :: string
  u_role :: string
  u_state :: string
  u_auth_token :: string
  u_password_change_needed :: bool
  u_last_login :: int

text \<open>A row of \<^verbatim>\<open>models.InternalTip\<close>.\<close>

record internaltip =
  it_id :: string
  it_tid :: int
  it_receipt_hash :: string
  it_last_access :: int

text \<open>
  An entry of \<^verbatim>\<open>State.tenant_cache\<close>: the receipt salt, the boolean settings by
  their key (\<^verbatim>\<open>https_admin\<close>, \<^verbatim>\<open>https_whistleblower\<close>,
  \<^verbatim>\<open>ip_filter_authenticated_enable\<close>, ...), and the comma separated allow-list.
  A key that is absent raises \<^verbatim>\<open>KeyError\<close>.
\<close>

record tenant =
  receipt_salt :: string
  flags :: "string \<rightharpoonup> bool"
  ip_filter_authenticated :: string

text \<open>
  Addresses and networks of Python's \<^verbatim>\<open>ipaddress\<close> module: an address is its
  version and its integer value, a network is its network address and prefix length.
\<close>

datatype ip_address = IPv4Address "32 word" | IPv6Address "128 word"

datatype ip_network = IPv4Network "32 word" nat | IPv6Network "128 word" nat

definition netmask4 :: "nat \<Rightarrow> 32 word" where
  "netmask4 p = NOT (mask (32 - p))"

definition netmask6 :: "nat \<Rightarrow> 128 word" where
  "netmask6 p = NOT (mask (128 - p))"

text \<open>\<^verbatim>\<open>address in network\<close>: false when the versions differ.\<close>

fun ip_in_network :: "ip_address \<Rightarrow> ip_network \<Rightarrow> bool" where
  "ip_in_network (IPv4Address a) (IPv4Network n p) = (a AND netmask4 p = n)"
| "ip_in_network (IPv6Address a) (IPv6Network n p) = (a AND netmask6 p = n)"
| "ip_in_network _ _ = False"

text \<open>\<^verbatim>\<open>is_loopback\<close>: inside 127.0.0.0/8 for version 4, the address ::1 for version 6.\<close>

fun is_loopback :: "ip_address \<Rightarrow> bool" where
  "is_loopback (IPv4Address a) = ip_in_network (IPv4Address a) (IPv4Network 0x7F000000 8)"
| "is_loopback (IPv6Address a) = (a = 1)"

text \<open>
  A session of \<^verbatim>\<open>globaleaks.handlers.base\<close> and the values of a JSON answer.
\<close>

record session =
  s_id :: string
  s_tid :: int
  user_id :: string
  user_role :: string
  user_status :: string
  s_expiration :: int

datatype jvalue = JStr string | JInt int | JBool bool

text \<open>
  What a request does that is seen from outside the process: the sleep of the throttle
  and the calls into \<^verbatim>\<open>globaleaks.utils.security\<close>, in the order they happen.
\<close>

datatype event =
    DeferredSleep int
  | CheckPassword string string string
  | HashPassword string string

text \<open>
  The state of the process: \<^verbatim>\<open>Settings.failed_login_attempts\<close>,
  \<^verbatim>\<open>State.tenant_cache\<close>, the two tables in row order, the \<^verbatim>\<open>Sessions\<close>
  dictionary, and the events so far.
\<close>

record state =
  failed_login_attempts :: int
  tenant_cache :: "int \<rightharpoonup> tenant"
  users :: "user list"
  internaltips :: "internaltip list"
  sessions :: "string \<rightharpoonup> session"
  events :: "event list"

text \<open>
  The functions that the module imports and this source tree does not hold:
  \<^verbatim>\<open>security.check_password(password, salt, hash)\<close>,
  \<^verbatim>\<open>security.hash_password(secret, salt)\<close>,
  \<^verbatim>\<open>parse_csv_ip_ranges_to_ip_networks\<close>, the parser \<^verbatim>\<open>ipaddress.ip_address\<close>
  (both give \<open>None\<close> where the Python raises \<^verbatim>\<open>ValueError\<close> on malformed text),
  and the lifetime that the session registry gives a new session.
\<close>

record env =
  check_password :: "string \<Rightarrow> string \<Rightarrow> string \<Rightarrow> bool"
  hash_password :: "string \<Rightarrow> string \<Rightarrow> string"
  parse_csv_ip_ranges_to_ip_networks :: "string \<Rightarrow> ip_network list option"
  ip_address_of :: "string \<Rightarrow> ip_address option"
  session_lifetime :: int

text \<open>The HTTP request after \<^verbatim>\<open>validate_message\<close>: the transport's facts and the body.\<close>

record request =
  req_tid :: int
  client_using_tor :: bool
  client_ip :: string
  req_username :: string
  req_password :: string
  req_token :: string
  req_receipt :: string

section \<open>Library calls\<close>

text \<open>
  \<^verbatim>\<open>SystemRandom().randint(a, b)\<close>: \<^verbatim>\<open>ValueError\<close> on an empty range, otherwise
  \<open>a\<close> plus a draw below \<open>b - a + 1\<close>; the draw is taken from the entropy \<open>rnd\<close>.
\<close>

definition randint :: "int \<Rightarrow> int \<Rightarrow> nat \<Rightarrow> error + int" where
  "randint a b rnd =
     (if b < a then Inl ValueError else Inr (a + int (rnd mod nat (b - a + 1))))"

text \<open>\<^verbatim>\<open>Query.one_or_none()\<close> on the rows that a query selects.\<close>

fun one_or_none :: "'a list \<Rightarrow> error + 'a option" where
  "one_or_none [] = Inr None"
| "one_or_none [x] = Inr (Some x)"
| "one_or_none _ = Inl MultipleResultsFound"

text \<open>\<^verbatim>\<open>State.tenant_cache[tid][key]\<close> for a boolean setting.\<close>

definition tenant_flag :: "state \<Rightarrow> int \<Rightarrow> string \<Rightarrow> error + bool" where
  "tenant_flag st tid key =
     (case tenant_cache st tid of
        None \<Rightarrow> Inl KeyError
      | Some t \<Rightarrow> (case flags t key of None \<Rightarrow> Inl KeyError | Some b \<Rightarrow> Inr b))"

text \<open>
  Modelled from the spec: \<^verbatim>\<open>new_session\<close> of \<^verbatim>\<open>globaleaks.handlers.base\<close>, which
  this source tree does not hold. It stores a session under the fresh identifier
  \<open>sid\<close> with the tenant, user, role and status given and an expiration time, and
  returns it.
\<close>

definition new_session ::
  "env \<Rightarrow> state \<Rightarrow> int \<Rightarrow> string \<Rightarrow> int \<Rightarrow> string \<Rightarrow> string \<Rightarrow> string \<Rightarrow> session \<times> state" where
  "new_session e st now sid tid uid role status =
     (let s = \<lparr>s_id = sid, s_tid = tid, user_id = uid, user_role = role,
                user_status = status, s_expiration = now + session_lifetime e\<rparr>
      in (s, st\<lparr>sessions := (sessions st)(sid \<mapsto> s)\<rparr>))"

section \<open>The login throttle\<close>

text \<open>\<^verbatim>\<open>random_login_delay\<close>, lines 20 to 46.\<close>

definition random_login_delay :: "state \<Rightarrow> nat \<Rightarrow> error + int" where
  "random_login_delay st rnd =
     (let failed_attempts = failed_login_attempts st in
      if failed_attempts \<ge> 5 then
        (let n = failed_attempts * failed_attempts;
             min_sleep = (if failed_attempts < 42 then failed_attempts else 42);
             max_sleep = (if n < 42 then n else 42)
         in randint min_sleep max_sleep rnd)
      else Inr 0)"

section \<open>Whistleblower login\<close>

text \<open>\<^verbatim>\<open>db_get_wbtip_by_receipt\<close>, lines 49 to 53.\<close>

definition db_get_wbtip_by_receipt ::
  "env \<Rightarrow> state \<Rightarrow> int \<Rightarrow> string \<Rightarrow> (error + internaltip option) \<times> state" where
  "db_get_wbtip_by_receipt e st tid receipt =
     (case tenant_cache st tid of
        None \<Rightarrow> (Inl KeyError, st)
      | Some t \<Rightarrow>
          (let hashed_receipt = hash_password e receipt (receipt_salt t);
               st1 = st\<lparr>events := events st @ [HashPassword receipt (receipt_salt t)]\<rparr>
           in (one_or_none
                 (filter (\<lambda>w. it_receipt_hash w = hashed_receipt \<and> it_tid w = tid)
                    (internaltips st1)),
               st1)))"

text \<open>
  \<^verbatim>\<open>login_whistleblower\<close>, lines 56 to 75. The transaction writes a row only on
  the path that returns, so a raise leaves the tables as they were; the failure counter
  is no part of the transaction. \<open>now\<close> is what \<^verbatim>\<open>datetime_now()\<close> gives.
\<close>

definition login_whistleblower ::
  "env \<Rightarrow> state \<Rightarrow> int \<Rightarrow> int \<Rightarrow> string \<Rightarrow> bool \<Rightarrow> (error + string) \<times> state" where
  "login_whistleblower e st now tid receipt using_tor =
     (case db_get_wbtip_by_receipt e st tid receipt of
        (Inl err, st1) \<Rightarrow> (Inl err, st1)
      | (Inr None, st1) \<Rightarrow>
          (Inl InvalidAuthentication,
           st1\<lparr>failed_login_attempts := failed_login_attempts st1 + 1\<rparr>)
      | (Inr (Some wbtip), st1) \<Rightarrow>
          (case (if using_tor then Inr True else tenant_flag st1 tid ''https_whistleblower'') of
             Inl err \<Rightarrow> (Inl err, st1)
           | Inr allowed \<Rightarrow>
               if \<not> allowed then (Inl TorNetworkRequired, st1)
               else
                 (Inr (it_id wbtip),
                  st1\<lparr>internaltips :=
                         map (\<lambda>w. if it_id w = it_id wbtip then w\<lparr>it_last_access := now\<rparr> else w)
                           (internaltips st1)\<rparr>)))"

section \<open>Staff login\<close>

text \<open>The loop of lines 94 to 96: every row is checked, a row that verifies is kept.\<close>

fun login_for_users ::
  "env \<Rightarrow> string \<Rightarrow> user list \<Rightarrow> user option \<Rightarrow> state \<Rightarrow> user option \<times> state" where
  "login_for_users e password [] usr st = (usr, st)"
| "login_for_users e password (u # us) usr st =
     (let st1 = st\<lparr>events := events st @ [CheckPassword password (u_salt u) (u_password u)]\<rparr>
      in if check_password e password (u_salt u) (u_password u)
         then login_for_users e password us (Some u) st1
         else login_for_users e password us usr st1)"

text \<open>The check of line 95 on one row.\<close>

abbreviation verifies :: "env \<Rightarrow> string \<Rightarrow> user \<Rightarrow> bool" where
  "verifies e password u \<equiv> check_password e password (u_salt u) (u_password u)"

text \<open>The rows that the query of lines 90 to 93 selects, in row order.\<close>

definition login_candidates :: "state \<Rightarrow> int \<Rightarrow> string \<Rightarrow> user list" where
  "login_candidates st tid username =
     filter (\<lambda>u. u_username u = username \<and> u_state u \<noteq> ''disabled'' \<and>
                 ((u_role u = ''admin'' \<and> u_tid u \<in> {1, tid}) \<or>
                  (u_role u \<noteq> ''admin'' \<and> u_tid u = tid)))
       (users st)"

text \<open>Lines 83 to 96: the principal that the credentials resolve to, if any.\<close>

definition login_find_user ::
  "env \<Rightarrow> state \<Rightarrow> int \<Rightarrow> string \<Rightarrow> string \<Rightarrow> string \<Rightarrow> (error + user option) \<times> state" where
  "login_find_user e st tid username password token =
     (if token \<noteq> [] then
        (one_or_none
           (filter (\<lambda>u. u_auth_token u = token \<and> u_state u \<noteq> ''disabled'' \<and> u_tid u = tid)
              (users st)),
         st)
      else
        (case login_for_users e password (login_candidates st tid username) None st of
           (usr, st1) \<Rightarrow> (Inr usr, st1)))"

text \<open>The loop of lines 123 to 125.\<close>

fun login_for_networks :: "ip_address \<Rightarrow> ip_network list \<Rightarrow> bool \<Rightarrow> bool" where
  "login_for_networks a [] success = success"
| "login_for_networks a (n # ns) success =
     (if ip_in_network a n then login_for_networks a ns True
      else login_for_networks a ns success)"

text \<open>
  Lines 108 to 128: the check of the client address against the allow-list. The
  decoding of a byte string and the parsing of the address are both in
  \<open>ip_address_of\<close>.
\<close>

definition login_ip_filter :: "env \<Rightarrow> state \<Rightarrow> int \<Rightarrow> string \<Rightarrow> error + unit" where
  "login_ip_filter e st tid cip =
     (case tenant_flag st tid ''ip_filter_authenticated_enable'' of
        Inl err \<Rightarrow> Inl err
      | Inr enabled \<Rightarrow>
          if enabled then
            (case tenant_cache st tid of
               None \<Rightarrow> Inl KeyError
             | Some t \<Rightarrow>
                 (case parse_csv_ip_ranges_to_ip_networks e (ip_filter_authenticated t) of
                    None \<Rightarrow> Inl ValueError
                  | Some ip_networks \<Rightarrow>
                      (case ip_address_of e cip of
                         None \<Rightarrow> Inl ValueError
                       | Some client_ip_obj \<Rightarrow>
                           (let success = (if is_loopback client_ip_obj then True else False)
                            in if login_for_networks client_ip_obj ip_networks success
                               then Inr ()
                               else Inl AccessLocationInvalid))))
          else Inr ())"

text \<open>
  \<^verbatim>\<open>login\<close>, lines 78 to 134: the principal, the failure counter, the network
  policy, the address filter, and the last-login time. The answer is
  \<^verbatim>\<open>(user.id, user.state, user.role, user.password_change_needed)\<close>.
\<close>

definition login ::
  "env \<Rightarrow> state \<Rightarrow> int \<Rightarrow> int \<Rightarrow> string \<Rightarrow> string \<Rightarrow> bool \<Rightarrow> string \<Rightarrow> string \<Rightarrow>
   (error + string \<times> string \<times> string \<times> bool) \<times> state" where
  "login e st now tid username password using_tor cip token =
     (case login_find_user e st tid username password token of
        (Inl err, st1) \<Rightarrow> (Inl err, st1)
      | (Inr None, st1) \<Rightarrow>
          (Inl InvalidAuthentication,
           st1\<lparr>failed_login_attempts := failed_login_attempts st1 + 1\<rparr>)
      | (Inr (Some usr), st1) \<Rightarrow>
          (case (if using_tor then Inr True
                 else tenant_flag st1 tid (''https_'' @ u_role usr)) of
             Inl err \<Rightarrow> (Inl err, st1)
           | Inr allowed \<Rightarrow>
               if \<not> allowed then (Inl TorNetworkRequired, st1)
               else
                 (case login_ip_filter e st1 tid cip of
                    Inl err \<Rightarrow> (Inl err, st1)
                  | Inr _ \<Rightarrow>
                      (Inr (u_id usr, u_state usr, u_role usr, u_password_change_needed usr),
                       st1\<lparr>users :=
                              map (\<lambda>u. if u_id u = u_id usr then u\<lparr>u_last_login := now\<rparr> else u)
                                (users st1)\<rparr>))))"

section \<open>The handlers\<close>

text \<open>
  The sleep of lines 148 to 150 and 183 to 185: the delay is drawn from the counter
  as it stands, and awaited when it is not zero.
\<close>

definition throttle :: "state \<Rightarrow> nat \<Rightarrow> (error + int) \<times> state" where
  "throttle st rnd =
     (case random_login_delay st rnd of
        Inl err \<Rightarrow> (Inl err, st)
      | Inr delay \<Rightarrow>
          (Inr delay,
           if delay \<noteq> 0 then st\<lparr>events := events st @ [DeferredSleep delay]\<rparr> else st))"

text \<open>\<^verbatim>\<open>AuthenticationHandler.post\<close>, lines 144 to 168.\<close>

definition AuthenticationHandler_post ::
  "env \<Rightarrow> state \<Rightarrow> int \<Rightarrow> nat \<Rightarrow> string \<Rightarrow> request \<Rightarrow> (error + (string \<times> jvalue) list) \<times> state" where
  "AuthenticationHandler_post e st now rnd sid req =
     (case throttle st rnd of
        (Inl err, st1) \<Rightarrow> (Inl err, st1)
      | (Inr delay, st1) \<Rightarrow>
          (case login e st1 now (req_tid req) (req_username req) (req_password req)
                  (client_using_tor req) (client_ip req) (req_token req) of
             (Inl err, st2) \<Rightarrow> (Inl err, st2)
           | (Inr (uid, status, role, pcn), st2) \<Rightarrow>
               (case new_session e st2 now sid (req_tid req) uid role status of
                  (s, st3) \<Rightarrow>
                    (Inr [(''session_id'', JStr (s_id s)),
                          (''role'', JStr (user_role s)),
                          (''user_id'', JStr (user_id s)),
                          (''session_expiration'', JInt (s_expiration s)),
                          (''status'', JStr (user_status s)),
                          (''password_change_needed'', JBool pcn)],
                     st3))))"

text \<open>\<^verbatim>\<open>ReceiptAuthHandler.post\<close>, lines 177 to 196.\<close>

definition ReceiptAuthHandler_post ::
  "env \<Rightarrow> state \<Rightarrow> int \<Rightarrow> nat \<Rightarrow> string \<Rightarrow> request \<Rightarrow> (error + (string \<times> jvalue) list) \<times> state" where
  "ReceiptAuthHandler_post e st now rnd sid req =
     (case throttle st rnd of
        (Inl err, st1) \<Rightarrow> (Inl err, st1)
      | (Inr delay, st1) \<Rightarrow>
          (case login_whistleblower e st1 now (req_tid req) (req_receipt req)
                  (client_using_tor req) of
             (Inl err, st2) \<Rightarrow> (Inl err, st2)
           | (Inr uid, st2) \<Rightarrow>
               (case new_session e st2 now sid (req_tid req) uid ''whistleblower'' ''Enabled'' of
                  (s, st3) \<Rightarrow>
                    (Inr [(''session_id'', JStr (s_id s)),
                          (''role'', JStr (user_role s)),
                          (''user_id'', JStr (user_id s)),
                          (''session_expiration'', JInt (s_expiration s))],
                     st3))))"

text \<open>\<^verbatim>\<open>SessionHandler.get\<close>, lines 205 to 216, on the session of the caller.\<close>

definition SessionHandler_get :: "session \<Rightarrow> (string \<times> jvalue) list" where
  "SessionHandler_get current_user =
     [(''session_id'', JStr (s_id current_user)),
      (''role'', JStr (user_role current_user)),
      (''user_id'', JStr (user_id current_user)),
      (''session_expiration'', JInt (s_expiration current_user)),
      (''status'', JStr (user_status current_user)),
      (''password_change_needed'', JBool False)]"

section \<open>A small installation\<close>

text \<open>
  A toy verifier (the stored hash is the salt followed by the password), a parser that
  knows one allow-list and three addresses, and a state with two tenants: tenant 5
  closes the clear web to receivers and whistleblowers and filters by address.
\<close>

definition demo_env :: env where
  "demo_env =
     \<lparr>check_password = (\<lambda>password salt hash. hash = salt @ password),
      hash_password = (\<lambda>secret salt. salt @ secret),
      parse_csv_ip_ranges_to_ip_networks =
        (\<lambda>s. if s = ''10.0.0.0/24'' then Some [IPv4Network 0x0A000000 24] else None),
      ip_address_of =
        (\<lambda>s. if s = ''127.0.0.1'' then Some (IPv4Address 0x7F000001)
             else if s = ''10.0.0.5'' then Some (IPv4Address 0x0A000005)
             else if s = ''192.168.1.1'' then Some (IPv4Address 0xC0A80101)
             else None),
      session_lifetime = 3600\<rparr>"

definition alice_root :: user where
  "alice_root =
     \<lparr>u_id = ''u1'', u_tid = 1, u_username = ''alice'', u_salt = ''s1'',
      u_password = ''s1p@ss'', u_role = ''admin'', u_state = ''enabled'',
      u_auth_token = ''tok-a'', u_password_change_needed = False, u_last_login = 0\<rparr>"

definition alice_five :: user where
  "alice_five =
     \<lparr>u_id = ''u2'', u_tid = 5, u_username = ''alice'', u_salt = ''s2'',
      u_password = ''s2p@ss'', u_role = ''admin'', u_state = ''enabled'',
      u_auth_token = ''tok-b'', u_password_change_needed = True, u_last_login = 0\<rparr>"

definition bob :: user where
  "bob =
     \<lparr>u_id = ''u3'', u_tid = 5, u_username = ''bob'', u_salt = ''s3'',
      u_password = ''s3secret'', u_role = ''receiver'', u_state = ''enabled'',
      u_auth_token = ''tok-c'', u_password_change_needed = False, u_last_login = 0\<rparr>"

definition tip_one :: internaltip where
  "tip_one = \<lparr>it_id = ''t1'', it_tid = 5, it_receipt_hash = ''SR1'', it_last_access = 0\<rparr>"

definition tenant_one :: tenant where
  "tenant_one =
     \<lparr>receipt_salt = ''Z'',
      flags = map_of [(''https_admin'', True), (''https_custodian'', True),
                      (''https_receiver'', True), (''https_whistleblower'', True),
                      (''ip_filter_authenticated_enable'', False)],
      ip_filter_authenticated = []\<rparr>"

definition tenant_five :: tenant where
  "tenant_five =
     \<lparr>receipt_salt = ''S'',
      flags = map_of [(''https_admin'', True), (''https_custodian'', True),
                      (''https_receiver'', False), (''https_whistleblower'', False),
                      (''ip_filter_authenticated_enable'', True)],
      ip_filter_authenticated = ''10.0.0.0/24''\<rparr>"

definition demo_state :: state where
  "demo_state =
     \<lparr>failed_login_attempts = 4,
      tenant_cache = [1 \<mapsto> tenant_one, 5 \<mapsto> tenant_five],
      users = [alice_root, alice_five, bob],
      internaltips = [tip_one],
      sessions = Map.empty,
      events = []\<rparr>"

section \<open>The throttle table\<close>

lemma randint_range:
  assumes "a \<le> b"
  shows "\<exists>d. randint a b rnd = Inr d \<and> a \<le> d \<and> d \<le> b"
proof -
  have "0 < nat (b - a + 1)" using assms by simp
  then have "rnd mod nat (b - a + 1) < nat (b - a + 1)" by (rule mod_less_divisor)
  then have "int (rnd mod nat (b - a + 1)) \<le> b - a" using assms by linarith
  then show ?thesis using assms by (simp add: randint_def)
qed

lemma le_square:
  fixes x :: int
  assumes "5 \<le> x"
  shows "x \<le> x * x"
proof -
  have "x * 1 \<le> x * x" using assms by (intro mult_left_mono) simp_all
  then show ?thesis by simp
qed

text \<open>
  C1. For every failure count \<open>x\<close>: below 5 the delay is 0; from 5 to 41 it is an
  integer between \<open>min x 42\<close> and \<open>min (x * x) 42\<close>; from 42 on it is exactly 42.
  The draw never raises, whatever the entropy.
\<close>

theorem random_login_delay_table:
  "(failed_login_attempts st < 5 \<longrightarrow> random_login_delay st rnd = Inr 0) \<and>
   (5 \<le> failed_login_attempts st \<and> failed_login_attempts st < 42 \<longrightarrow>
      (\<exists>d. random_login_delay st rnd = Inr d \<and>
           min (failed_login_attempts st) 42 \<le> d \<and>
           d \<le> min (failed_login_attempts st * failed_login_attempts st) 42)) \<and>
   (42 \<le> failed_login_attempts st \<longrightarrow> random_login_delay st rnd = Inr 42)"
proof (intro conjI impI)
  assume "failed_login_attempts st < 5"
  then show "random_login_delay st rnd = Inr 0"
    by (simp add: random_login_delay_def)
next
  let ?x = "failed_login_attempts st"
  assume h: "5 \<le> ?x \<and> ?x < 42"
  then have "?x \<le> ?x * ?x" by (simp add: le_square)
  then have "min ?x 42 \<le> min (?x * ?x) 42" by simp
  from randint_range [OF this, of rnd] obtain d where
    d: "randint (min ?x 42) (min (?x * ?x) 42) rnd = Inr d"
       "min ?x 42 \<le> d" "d \<le> min (?x * ?x) 42"
    by blast
  have "random_login_delay st rnd = randint (min ?x 42) (min (?x * ?x) 42) rnd"
    using h by (simp add: random_login_delay_def Let_def min_def)
  with d show "\<exists>d. random_login_delay st rnd = Inr d \<and> min ?x 42 \<le> d \<and>
                   d \<le> min (?x * ?x) 42"
    by simp
next
  let ?x = "failed_login_attempts st"
  assume h: "42 \<le> ?x"
  then have "42 * 42 \<le> ?x * ?x" by (intro mult_mono) simp_all
  then have "\<not> ?x * ?x < 42" by simp
  then show "random_login_delay st rnd = Inr 42"
    using h by (simp add: random_login_delay_def Let_def randint_def)
qed

theorem random_login_delay_table_witness:
  "random_login_delay (demo_state\<lparr>failed_login_attempts := 4\<rparr>) 7 = Inr 0 \<and>
   (\<exists>d. random_login_delay (demo_state\<lparr>failed_login_attempts := 5\<rparr>) 7 = Inr d \<and>
        5 \<le> d \<and> d \<le> 25) \<and>
   (\<exists>d. random_login_delay (demo_state\<lparr>failed_login_attempts := 6\<rparr>) 7 = Inr d \<and>
        6 \<le> d \<and> d \<le> 36) \<and>
   (\<exists>d. random_login_delay (demo_state\<lparr>failed_login_attempts := 7\<rparr>) 7 = Inr d \<and>
        7 \<le> d \<and> d \<le> 42) \<and>
   random_login_delay (demo_state\<lparr>failed_login_attempts := 42\<rparr>) 7 = Inr 42 \<and>
   random_login_delay (demo_state\<lparr>failed_login_attempts := 1000\<rparr>) 7 = Inr 42"
  using random_login_delay_table [of "demo_state\<lparr>failed_login_attempts := 4\<rparr>" 7]
    random_login_delay_table [of "demo_state\<lparr>failed_login_attempts := 5\<rparr>" 7]
    random_login_delay_table [of "demo_state\<lparr>failed_login_attempts := 6\<rparr>" 7]
    random_login_delay_table [of "demo_state\<lparr>failed_login_attempts := 7\<rparr>" 7]
    random_login_delay_table [of "demo_state\<lparr>failed_login_attempts := 42\<rparr>" 7]
    random_login_delay_table [of "demo_state\<lparr>failed_login_attempts := 1000\<rparr>" 7]
  by simp

section \<open>What the two loops compute\<close>

lemma login_for_users_state:
  "snd (login_for_users e password us usr st) =
     st\<lparr>events := events st @ map (\<lambda>u. CheckPassword password (u_salt u) (u_password u)) us\<rparr>"
  by (induction us arbitrary: usr st) (simp_all add: Let_def)

lemma login_for_users_result:
  "fst (login_for_users e password us usr st) =
     (case filter (verifies e password) us of [] \<Rightarrow> usr | v # vs \<Rightarrow> Some (last (v # vs)))"
proof (induction us arbitrary: usr st)
  case Nil
  show ?case by simp
next
  case (Cons u us)
  show ?case
    by (cases "filter (verifies e password) us") (simp_all add: Let_def Cons.IH)
qed

lemma login_for_users_None:
  "fst (login_for_users e password us None st) = None \<longleftrightarrow>
     \<not> (\<exists>u \<in> set us. verifies e password u)"
proof -
  have "fst (login_for_users e password us None st) = None \<longleftrightarrow>
          filter (verifies e password) us = []"
    by (simp add: login_for_users_result split: list.splits)
  then show ?thesis by (simp add: filter_empty_conv)
qed

lemma login_for_networks_eq:
  "login_for_networks a ns success \<longleftrightarrow> success \<or> (\<exists>n \<in> set ns. ip_in_network a n)"
  by (induction ns arbitrary: success) auto

lemma one_or_none_None: "one_or_none xs = Inr None \<longleftrightarrow> xs = []"
  by (cases xs rule: one_or_none.cases) simp_all


lemma login_find_user_state:
  "snd (login_find_user e st tid username password token) =
     (if token \<noteq> [] then st
      else st\<lparr>events := events st @
                 map (\<lambda>u. CheckPassword password (u_salt u) (u_password u))
                   (login_candidates st tid username)\<rparr>)"
  by (simp add: login_find_user_def split_beta login_for_users_state)

lemma random_login_delay_total:
  "\<exists>d. random_login_delay st rnd = Inr d \<and> 0 \<le> d \<and> d \<le> 42 \<and>
       (5 \<le> failed_login_attempts st \<longrightarrow> 5 \<le> d)"
proof (cases "failed_login_attempts st < 5")
  case True
  then show ?thesis by (simp add: random_login_delay_def)
next
  case False
  let ?x = "failed_login_attempts st"
  from False have "?x \<le> ?x * ?x" by (simp add: le_square)
  then have "min ?x 42 \<le> min (?x * ?x) 42" by simp
  from randint_range [OF this, of rnd] obtain d where
    d: "randint (min ?x 42) (min (?x * ?x) 42) rnd = Inr d"
       "min ?x 42 \<le> d" "d \<le> min (?x * ?x) 42"
    by blast
  have "random_login_delay st rnd = randint (min ?x 42) (min (?x * ?x) 42) rnd"
    using False by (simp add: random_login_delay_def Let_def min_def)
  with d False show ?thesis by auto
qed


lemmas demo_defs =
  demo_state_def demo_env_def alice_root_def alice_five_def bob_def
  tenant_five_def tenant_one_def tip_one_def

lemmas login_defs =
  login_def login_find_user_def login_candidates_def tenant_flag_def login_ip_filter_def
  login_whistleblower_def db_get_wbtip_by_receipt_def netmask4_def mask_eq_exp_minus_1
  Let_def

section \<open>The failure counter\<close>

lemma one_or_none_error: "one_or_none xs = Inl err \<Longrightarrow> err = MultipleResultsFound"
  by (cases xs rule: one_or_none.cases) simp_all

lemma login_find_user_error:
  "fst (login_find_user e st tid username password token) = Inl err \<Longrightarrow>
     err = MultipleResultsFound"
  by (auto simp: login_find_user_def split_beta dest: one_or_none_error split: if_splits)

lemma tenant_flag_error: "tenant_flag st tid key = Inl err \<Longrightarrow> err = KeyError"
  by (auto simp: tenant_flag_def split: option.splits)

lemma login_ip_filter_error:
  "login_ip_filter e st tid cip = Inl err \<Longrightarrow>
     err = KeyError \<or> err = ValueError \<or> err = AccessLocationInvalid"
  by (auto simp: login_ip_filter_def dest: tenant_flag_error
           split: sum.splits option.splits if_splits)

lemma login_invalid_iff:
  "fst (login e st now tid username password using_tor cip token) = Inl InvalidAuthentication
     \<longleftrightarrow> fst (login_find_user e st tid username password token) = Inr None"
proof (cases "login_find_user e st tid username password token")
  case (Pair r st1)
  show ?thesis
  proof (cases r)
    case (Inl err)
    with Pair login_find_user_error [of e st tid username password token err]
    show ?thesis by (simp add: login_def)
  next
    case (Inr found)
    show ?thesis
    proof (cases found)
      case None
      with Pair Inr show ?thesis by (simp add: login_def)
    next
      case (Some usr)
      with Pair Inr show ?thesis
        by (auto simp: login_def dest: tenant_flag_error login_ip_filter_error
                 split: sum.splits)
    qed
  qed
qed

lemma login_counter:
  "failed_login_attempts (snd (login e st now tid username password using_tor cip token)) =
     failed_login_attempts st +
       (if fst (login_find_user e st tid username password token) = Inr None then 1 else 0)"
proof (cases "login_find_user e st tid username password token")
  case (Pair r st1)
  have "st1 = snd (login_find_user e st tid username password token)"
    using Pair by simp
  then have c: "failed_login_attempts st1 = failed_login_attempts st"
    by (simp add: login_find_user_state)
  show ?thesis
    using Pair c by (auto simp: login_def split: sum.splits option.splits)
qed

lemma login_find_user_None_iff:
  "fst (login_find_user e st tid username password token) = Inr None \<longleftrightarrow>
     (if token \<noteq> []
      then \<not> (\<exists>u \<in> set (users st).
                 u_auth_token u = token \<and> u_state u \<noteq> ''disabled'' \<and> u_tid u = tid)
      else \<not> (\<exists>u \<in> set (login_candidates st tid username). verifies e password u))"
proof (cases "token \<noteq> []")
  case True
  then show ?thesis
    by (simp add: login_find_user_def one_or_none_None filter_empty_conv)
next
  case False
  then have "fst (login_find_user e st tid username password token) =
               Inr (fst (login_for_users e password (login_candidates st tid username) None st))"
    by (simp add: login_find_user_def split_beta)
  then show ?thesis using False by (simp add: login_for_users_None)
qed

lemma db_get_wbtip_by_receipt_eq:
  "tenant_cache st tid = Some t \<Longrightarrow>
   db_get_wbtip_by_receipt e st tid receipt =
     (one_or_none
        (filter (\<lambda>w. it_receipt_hash w = hash_password e receipt (receipt_salt t) \<and>
                     it_tid w = tid) (internaltips st)),
      st\<lparr>events := events st @ [HashPassword receipt (receipt_salt t)]\<rparr>)"
  by (simp add: db_get_wbtip_by_receipt_def Let_def)

lemma login_whistleblower_invalid_iff:
  "fst (login_whistleblower e st now tid receipt using_tor) = Inl InvalidAuthentication \<longleftrightarrow>
     (\<exists>t. tenant_cache st tid = Some t \<and>
          \<not> (\<exists>w \<in> set (internaltips st).
                it_receipt_hash w = hash_password e receipt (receipt_salt t) \<and> it_tid w = tid))"
proof (cases "tenant_cache st tid")
  case None
  then show ?thesis
    by (simp add: login_whistleblower_def db_get_wbtip_by_receipt_def)
next
  case (Some t)
  let ?m = "filter (\<lambda>w. it_receipt_hash w = hash_password e receipt (receipt_salt t) \<and>
                         it_tid w = tid) (internaltips st)"
  have "fst (login_whistleblower e st now tid receipt using_tor) = Inl InvalidAuthentication
          \<longleftrightarrow> ?m = []"
    using Some
    by (auto simp: login_whistleblower_def db_get_wbtip_by_receipt_eq one_or_none_None
             dest: one_or_none_error tenant_flag_error split: sum.splits option.splits)
  then show ?thesis using Some by (simp add: filter_empty_conv)
qed

lemma login_whistleblower_counter:
  "failed_login_attempts (snd (login_whistleblower e st now tid receipt using_tor)) =
     failed_login_attempts st +
       (if fst (login_whistleblower e st now tid receipt using_tor) = Inl InvalidAuthentication
        then 1 else 0)"
proof (cases "tenant_cache st tid")
  case None
  then show ?thesis
    by (simp add: login_whistleblower_def db_get_wbtip_by_receipt_def)
next
  case (Some t)
  then show ?thesis
    by (auto simp: login_whistleblower_def db_get_wbtip_by_receipt_eq
             dest: one_or_none_error tenant_flag_error split: sum.splits option.splits)
qed

text \<open>
  C3. The failure counter grows by one exactly when the login ends with
  \<^verbatim>\<open>InvalidAuthentication\<close>, and that is exactly when the credential check fails:
  no row carries the token, no candidate row verifies the password, or no submission
  of the tenant carries the hash of the receipt. On every other outcome
  (\<^verbatim>\<open>TorNetworkRequired\<close>, \<^verbatim>\<open>AccessLocationInvalid\<close>, success) it keeps its value.
\<close>

theorem failed_login_attempts_counter:
  "failed_login_attempts (snd (login e st now tid username password using_tor cip token)) =
     failed_login_attempts st +
       (if fst (login e st now tid username password using_tor cip token) =
             Inl InvalidAuthentication then 1 else 0) \<and>
   (fst (login e st now tid username password using_tor cip token) = Inl InvalidAuthentication
      \<longleftrightarrow>
      (if token \<noteq> []
       then \<not> (\<exists>u \<in> set (users st).
                  u_auth_token u = token \<and> u_state u \<noteq> ''disabled'' \<and> u_tid u = tid)
       else \<not> (\<exists>u \<in> set (login_candidates st tid username). verifies e password u))) \<and>
   failed_login_attempts (snd (login_whistleblower e st now tid receipt using_tor)) =
     failed_login_attempts st +
       (if fst (login_whistleblower e st now tid receipt using_tor) =
             Inl InvalidAuthentication then 1 else 0) \<and>
   (fst (login_whistleblower e st now tid receipt using_tor) = Inl InvalidAuthentication
      \<longleftrightarrow>
      (\<exists>t. tenant_cache st tid = Some t \<and>
           \<not> (\<exists>w \<in> set (internaltips st).
                 it_receipt_hash w = hash_password e receipt (receipt_salt t) \<and>
                 it_tid w = tid)))"
proof (intro conjI)
  show "failed_login_attempts (snd (login e st now tid username password using_tor cip token)) =
     failed_login_attempts st +
       (if fst (login e st now tid username password using_tor cip token) =
             Inl InvalidAuthentication then 1 else 0)"
    by (simp only: login_counter login_invalid_iff)
next
  show "fst (login e st now tid username password using_tor cip token) =
          Inl InvalidAuthentication \<longleftrightarrow>
      (if token \<noteq> []
       then \<not> (\<exists>u \<in> set (users st).
                  u_auth_token u = token \<and> u_state u \<noteq> ''disabled'' \<and> u_tid u = tid)
       else \<not> (\<exists>u \<in> set (login_candidates st tid username). verifies e password u))"
    by (simp only: login_invalid_iff login_find_user_None_iff)
next
  show "failed_login_attempts (snd (login_whistleblower e st now tid receipt using_tor)) =
     failed_login_attempts st +
       (if fst (login_whistleblower e st now tid receipt using_tor) =
             Inl InvalidAuthentication then 1 else 0)"
    by (rule login_whistleblower_counter)
next
  show "fst (login_whistleblower e st now tid receipt using_tor) = Inl InvalidAuthentication
      \<longleftrightarrow>
      (\<exists>t. tenant_cache st tid = Some t \<and>
           \<not> (\<exists>w \<in> set (internaltips st).
                 it_receipt_hash w = hash_password e receipt (receipt_salt t) \<and>
                 it_tid w = tid))"
    by (rule login_whistleblower_invalid_iff)
qed

theorem failed_login_attempts_counter_witness:
  "failed_login_attempts demo_state = 4 \<and>
   login demo_env demo_state 100 5 ''bob'' ''wrong'' False ''10.0.0.5'' [] =
     (Inl InvalidAuthentication,
      demo_state\<lparr>failed_login_attempts := 5,
                  events := [CheckPassword ''wrong'' ''s3'' ''s3secret'']\<rparr>) \<and>
   fst (login demo_env demo_state 100 5 ''bob'' ''secret'' False ''10.0.0.5'' []) =
     Inl TorNetworkRequired \<and>
   failed_login_attempts
     (snd (login demo_env demo_state 100 5 ''bob'' ''secret'' False ''10.0.0.5'' [])) = 4 \<and>
   fst (login demo_env demo_state 100 5 ''alice'' ''p@ss'' False ''192.168.1.1'' []) =
     Inl AccessLocationInvalid \<and>
   failed_login_attempts
     (snd (login demo_env demo_state 100 5 ''alice'' ''p@ss'' False ''192.168.1.1'' [])) = 4 \<and>
   fst (login demo_env demo_state 100 5 [] [] True ''10.0.0.5'' ''tok-c'') =
     Inr (''u3'', ''enabled'', ''receiver'', False) \<and>
   failed_login_attempts
     (snd (login demo_env demo_state 100 5 [] [] True ''10.0.0.5'' ''tok-c'')) = 4 \<and>
   fst (login_whistleblower demo_env demo_state 100 5 ''R2'' True) =
     Inl InvalidAuthentication \<and>
   failed_login_attempts (snd (login_whistleblower demo_env demo_state 100 5 ''R2'' True)) = 5 \<and>
   fst (login_whistleblower demo_env demo_state 100 5 ''R1'' False) = Inl TorNetworkRequired \<and>
   failed_login_attempts (snd (login_whistleblower demo_env demo_state 100 5 ''R1'' False)) = 4"
  using
    failed_login_attempts_counter [of demo_env demo_state 100 5 "''bob''" "''wrong''" False
      "''10.0.0.5''" "[]" "''R2''"]
    failed_login_attempts_counter [of demo_env demo_state 100 5 "''bob''" "''secret''" False
      "''10.0.0.5''" "[]" "''R1''"]
    failed_login_attempts_counter [of demo_env demo_state 100 5 "''alice''" "''p@ss''" False
      "''192.168.1.1''" "[]" "''R1''"]
    failed_login_attempts_counter [of demo_env demo_state 100 5 "[]" "[]" True
      "''10.0.0.5''" "''tok-c''" "''R2''"]
  by (simp add: login_defs demo_defs)

section \<open>The verifier calls of a login by username\<close>

lemma find_append:
  "List.find P (xs @ ys) = (case List.find P xs of None \<Rightarrow> List.find P ys | Some x \<Rightarrow> Some x)"
  by (induction xs) simp_all

lemma login_for_users_last:
  "fst (login_for_users e password us usr st) =
     (case List.find (verifies e password) (rev us) of None \<Rightarrow> usr | Some u \<Rightarrow> Some u)"
  by (induction us arbitrary: usr st) (simp_all add: Let_def find_append split: option.splits)

lemma login_events:
  "events (snd (login e st now tid username password using_tor cip token)) =
     events (snd (login_find_user e st tid username password token))"
  by (cases "login_find_user e st tid username password token")
     (auto simp: login_def split: sum.splits option.splits)

text \<open>
  C5, as the code has it. A login by username calls the verifier once for each
  candidate row and for nothing else: with no candidate there is no call at all, and
  the attempt fails with \<^verbatim>\<open>InvalidAuthentication\<close> having only raised the counter.
\<close>

theorem login_verifier_calls:
  "events (snd (login e st now tid username password using_tor cip [])) =
     events st @
       map (\<lambda>u. CheckPassword password (u_salt u) (u_password u))
         (login_candidates st tid username) \<and>
   (login_candidates st tid username = [] \<longrightarrow>
      login e st now tid username password using_tor cip [] =
        (Inl InvalidAuthentication,
         st\<lparr>failed_login_attempts := failed_login_attempts st + 1\<rparr>))"
proof (intro conjI impI)
  show "events (snd (login e st now tid username password using_tor cip [])) =
     events st @
       map (\<lambda>u. CheckPassword password (u_salt u) (u_password u))
         (login_candidates st tid username)"
    by (simp add: login_events login_find_user_state)
next
  assume "login_candidates st tid username = []"
  then show "login e st now tid username password using_tor cip [] =
        (Inl InvalidAuthentication,
         st\<lparr>failed_login_attempts := failed_login_attempts st + 1\<rparr>)"
    by (simp add: login_def login_find_user_def)
qed

theorem login_verifier_calls_witness:
  "login_candidates demo_state 5 ''nobody'' = [] \<and>
   login demo_env demo_state 100 5 ''nobody'' ''pw'' False ''10.0.0.5'' [] =
     (Inl InvalidAuthentication, demo_state\<lparr>failed_login_attempts := 5\<rparr>) \<and>
   events (snd (login demo_env demo_state 100 5 ''bob'' ''wrong'' False ''10.0.0.5'' [])) =
     [CheckPassword ''wrong'' ''s3'' ''s3secret'']"
  using login_verifier_calls [of demo_env demo_state 100 5 "''nobody''" "''pw''" False
          "''10.0.0.5''"]
    login_verifier_calls [of demo_env demo_state 100 5 "''bob''" "''wrong''" False
          "''10.0.0.5''"]
  by (simp add: login_candidates_def demo_defs)

theorem login_no_dummy_verification:
  "login_candidates demo_state 5 ''nobody'' = [] \<and>
   fst (login demo_env demo_state 100 5 ''nobody'' ''pw'' False ''10.0.0.5'' []) =
     Inl InvalidAuthentication \<and>
   events (snd (login demo_env demo_state 100 5 ''nobody'' ''pw'' False ''10.0.0.5'' [])) =
     events demo_state \<and>
   events (snd (login demo_env demo_state 100 5 ''bob'' ''pw'' False ''10.0.0.5'' [])) =
     events demo_state @ [CheckPassword ''pw'' ''s3'' ''s3secret'']"
  by (simp add: login_defs demo_defs)

text \<open>
  C9, as the code has it. The loop has no exit: every candidate row is verified, in
  row order, also after one has matched, and the principal is the last candidate
  that verifies.
\<close>

theorem login_last_match:
  "fst (login_find_user e st tid username password []) =
     Inr (List.find (verifies e password) (rev (login_candidates st tid username))) \<and>
   events (snd (login_find_user e st tid username password [])) =
     events st @
       map (\<lambda>u. CheckPassword password (u_salt u) (u_password u))
         (login_candidates st tid username)"
  by (simp add: login_find_user_def split_beta login_for_users_last login_for_users_state
           split: option.splits)

theorem login_first_match_counterexample:
  "login_candidates demo_state 5 ''alice'' = [alice_root, alice_five] \<and>
   verifies demo_env ''p@ss'' alice_root \<and>
   verifies demo_env ''p@ss'' alice_five \<and>
   login_find_user demo_env demo_state 5 ''alice'' ''p@ss'' [] =
     (Inr (Some alice_five),
      demo_state\<lparr>events := [CheckPassword ''p@ss'' ''s1'' ''s1p@ss'',
                             CheckPassword ''p@ss'' ''s2'' ''s2p@ss'']\<rparr>) \<and>
   fst (login demo_env demo_state 100 5 ''alice'' ''p@ss'' True ''10.0.0.5'' []) =
     Inr (''u2'', ''enabled'', ''admin'', True) \<and>
   u_id alice_root = ''u1''"
  by (simp add: login_defs demo_defs)

theorem login_last_match_witness:
  "fst (login_find_user demo_env demo_state 5 ''alice'' ''p@ss'' []) = Inr (Some alice_five) \<and>
   events (snd (login_find_user demo_env demo_state 5 ''alice'' ''p@ss'' [])) =
     [CheckPassword ''p@ss'' ''s1'' ''s1p@ss'', CheckPassword ''p@ss'' ''s2'' ''s2p@ss'']"
  using login_last_match [of demo_env demo_state 5 "''alice''" "''p@ss''"]
  by (simp add: login_candidates_def demo_defs)

section \<open>Which principal the credentials resolve to\<close>






section \<open>The clear web and the order of the checks\<close>

lemma tenant_flag_events [simp]:
  "tenant_flag (st\<lparr>events := evs\<rparr>) tid key = tenant_flag st tid key"
  by (simp add: tenant_flag_def)

lemma tenant_flag_find_user:
  "tenant_flag (snd (login_find_user e st tid username password token)) tid' key =
     tenant_flag st tid' key"
  by (simp add: login_find_user_state)

lemma tenant_flag_wbtip:
  "tenant_flag (snd (db_get_wbtip_by_receipt e st tid receipt)) tid' key =
     tenant_flag st tid' key"
  by (simp add: db_get_wbtip_by_receipt_def Let_def split: option.splits)

text \<open>
  C2, as the code has it. The credential check comes first. When the credentials
  resolve to a principal of role \<open>r\<close> (for a whistleblower: when a submission carries
  the receipt) and the request comes over the clear web while the tenant's flag for
  \<open>r\<close> is false, the attempt fails with \<^verbatim>\<open>TorNetworkRequired\<close>; when the
  credentials are invalid it fails with \<^verbatim>\<open>InvalidAuthentication\<close>, whatever the flag.
\<close>

theorem clear_web_denied_after_credentials:
  "(fst (login_find_user e st tid username password token) = Inr (Some usr) \<and>
    tenant_flag st tid (''https_'' @ u_role usr) = Inr False \<longrightarrow>
      fst (login e st now tid username password False cip token) = Inl TorNetworkRequired) \<and>
   (fst (login_find_user e st tid username password token) = Inr None \<longrightarrow>
      fst (login e st now tid username password False cip token) = Inl InvalidAuthentication) \<and>
   (fst (db_get_wbtip_by_receipt e st tid receipt) = Inr (Some wbtip) \<and>
    tenant_flag st tid ''https_whistleblower'' = Inr False \<longrightarrow>
      fst (login_whistleblower e st now tid receipt False) = Inl TorNetworkRequired) \<and>
   (fst (db_get_wbtip_by_receipt e st tid receipt) = Inr None \<longrightarrow>
      fst (login_whistleblower e st now tid receipt False) = Inl InvalidAuthentication)"
proof (intro conjI impI)
  assume h: "fst (login_find_user e st tid username password token) = Inr (Some usr) \<and>
             tenant_flag st tid (''https_'' @ u_role usr) = Inr False"
  obtain r st1 where p: "login_find_user e st tid username password token = (r, st1)"
    by (cases "login_find_user e st tid username password token")
  from p have "st1 = snd (login_find_user e st tid username password token)" by simp
  then have "tenant_flag st1 tid (''https_'' @ u_role usr) = Inr False"
    using h by (simp only: tenant_flag_find_user)
  with p h show "fst (login e st now tid username password False cip token) =
                   Inl TorNetworkRequired"
    by (simp add: login_def)
next
  assume "fst (login_find_user e st tid username password token) = Inr None"
  then show "fst (login e st now tid username password False cip token) =
               Inl InvalidAuthentication"
    by (simp add: login_invalid_iff)
next
  assume h: "fst (db_get_wbtip_by_receipt e st tid receipt) = Inr (Some wbtip) \<and>
             tenant_flag st tid ''https_whistleblower'' = Inr False"
  obtain r st1 where p: "db_get_wbtip_by_receipt e st tid receipt = (r, st1)"
    by (cases "db_get_wbtip_by_receipt e st tid receipt")
  from p have "st1 = snd (db_get_wbtip_by_receipt e st tid receipt)" by simp
  then have "tenant_flag st1 tid ''https_whistleblower'' = Inr False"
    using h by (simp only: tenant_flag_wbtip)
  with p h show "fst (login_whistleblower e st now tid receipt False) = Inl TorNetworkRequired"
    by (simp add: login_whistleblower_def)
next
  assume h: "fst (db_get_wbtip_by_receipt e st tid receipt) = Inr None"
  obtain r st1 where p: "db_get_wbtip_by_receipt e st tid receipt = (r, st1)"
    by (cases "db_get_wbtip_by_receipt e st tid receipt")
  with h show "fst (login_whistleblower e st now tid receipt False) = Inl InvalidAuthentication"
    by (simp add: login_whistleblower_def)
qed

theorem clear_web_denied_after_credentials_witness:
  "fst (login_find_user demo_env demo_state 5 ''bob'' ''secret'' []) = Inr (Some bob) \<and>
   tenant_flag demo_state 5 (''https_'' @ u_role bob) = Inr False \<and>
   fst (login demo_env demo_state 100 5 ''bob'' ''secret'' False ''10.0.0.5'' []) =
     Inl TorNetworkRequired \<and>
   fst (login_find_user demo_env demo_state 5 ''bob'' ''wrong'' []) = Inr None \<and>
   fst (login demo_env demo_state 100 5 ''bob'' ''wrong'' False ''10.0.0.5'' []) =
     Inl InvalidAuthentication \<and>
   fst (db_get_wbtip_by_receipt demo_env demo_state 5 ''R1'') = Inr (Some tip_one) \<and>
   tenant_flag demo_state 5 ''https_whistleblower'' = Inr False \<and>
   fst (login_whistleblower demo_env demo_state 100 5 ''R1'' False) = Inl TorNetworkRequired \<and>
   fst (db_get_wbtip_by_receipt demo_env demo_state 5 ''R2'') = Inr None \<and>
   fst (login_whistleblower demo_env demo_state 100 5 ''R2'' False) =
     Inl InvalidAuthentication"
proof -
  have a: "fst (login_find_user demo_env demo_state 5 ''bob'' ''secret'' []) = Inr (Some bob)"
    by (simp add: login_defs demo_defs)
  have b: "tenant_flag demo_state 5 (''https_'' @ u_role bob) = Inr False"
    by (simp add: login_defs demo_defs)
  have c: "fst (login_find_user demo_env demo_state 5 ''bob'' ''wrong'' []) = Inr None"
    by (simp add: login_defs demo_defs)
  have d: "fst (db_get_wbtip_by_receipt demo_env demo_state 5 ''R1'') = Inr (Some tip_one)"
    by (simp add: login_defs demo_defs)
  have f: "tenant_flag demo_state 5 ''https_whistleblower'' = Inr False"
    by (simp add: login_defs demo_defs)
  have g: "fst (db_get_wbtip_by_receipt demo_env demo_state 5 ''R2'') = Inr None"
    by (simp add: login_defs demo_defs)
  show ?thesis
    using a b c d f g
      clear_web_denied_after_credentials [of demo_env demo_state 5 "''bob''" "''secret''" "[]"
        bob 100 "''10.0.0.5''" "''R1''" tip_one]
      clear_web_denied_after_credentials [of demo_env demo_state 5 "''bob''" "''wrong''" "[]"
        bob 100 "''10.0.0.5''" "''R2''" tip_one]
    by simp
qed

theorem clear_web_invalid_credentials_counterexample:
  "tenant_flag demo_state 5 ''https_whistleblower'' = Inr False \<and>
   fst (login_whistleblower demo_env demo_state 100 5 ''R2'' False) =
     Inl InvalidAuthentication \<and>
   tenant_flag demo_state 5 ''https_receiver'' = Inr False \<and>
   fst (login demo_env demo_state 100 5 ''bob'' ''wrong'' False ''10.0.0.5'' []) =
     Inl InvalidAuthentication \<and>
   fst (login_whistleblower demo_env demo_state 100 5 ''R2'' False) \<noteq> Inl TorNetworkRequired"
  by (simp add: login_defs demo_defs)

section \<open>The receipt and the submission\<close>

lemma throttle_eq:
  "\<exists>d. random_login_delay st rnd = Inr d \<and> 0 \<le> d \<and>
       (5 \<le> failed_login_attempts st \<longrightarrow> 5 \<le> d) \<and>
       throttle st rnd =
         (Inr d, st\<lparr>events := events st @ (if d \<noteq> 0 then [DeferredSleep d] else [])\<rparr>)"
proof -
  from random_login_delay_total [of st rnd] obtain d where
    d: "random_login_delay st rnd = Inr d" "0 \<le> d" "5 \<le> failed_login_attempts st \<longrightarrow> 5 \<le> d"
    by blast
  then show ?thesis by (auto simp: throttle_def)
qed

lemma login_whistleblower_no_match:
  assumes "tenant_cache st tid = Some t"
    and "filter (\<lambda>w. it_receipt_hash w = hash_password e receipt (receipt_salt t) \<and> it_tid w = tid)
           (internaltips st) = []"
  shows "login_whistleblower e st now tid receipt using_tor =
           (Inl InvalidAuthentication,
            st\<lparr>events := events st @ [HashPassword receipt (receipt_salt t)],
               failed_login_attempts := failed_login_attempts st + 1\<rparr>)"
  using assms by (simp add: login_whistleblower_def db_get_wbtip_by_receipt_eq)

lemma login_whistleblower_match:
  assumes "tenant_cache st tid = Some t"
    and "filter (\<lambda>w. it_receipt_hash w = hash_password e receipt (receipt_salt t) \<and> it_tid w = tid)
           (internaltips st) = [wbtip]"
    and "using_tor \<or> flags t ''https_whistleblower'' = Some True"
  shows "login_whistleblower e st now tid receipt using_tor =
           (Inr (it_id wbtip),
            st\<lparr>events := events st @ [HashPassword receipt (receipt_salt t)],
               internaltips :=
                 map (\<lambda>w. if it_id w = it_id wbtip then w\<lparr>it_last_access := now\<rparr> else w)
                   (internaltips st)\<rparr>)"
  using assms
  by (auto simp: login_whistleblower_def db_get_wbtip_by_receipt_eq tenant_flag_def)

text \<open>
  C6. The receipt is hashed with the receipt salt of the tenant, and the submissions
  of that tenant with that hash are looked up. With no match the login fails with
  \<^verbatim>\<open>InvalidAuthentication\<close> and no submission is touched. With one match, over
  Tor or with the clear web open to whistleblowers, the login returns the submission,
  its last access becomes the time of the login, and the handler answers with a
  session of role \<^verbatim>\<open>whistleblower\<close>.
\<close>

theorem whistleblower_login:
  assumes "tenant_cache st tid = Some t"
  shows
  "events (snd (login_whistleblower e st now tid receipt using_tor)) =
     events st @ [HashPassword receipt (receipt_salt t)] \<and>
   (filter (\<lambda>w. it_receipt_hash w = hash_password e receipt (receipt_salt t) \<and> it_tid w = tid)
      (internaltips st) = [] \<longrightarrow>
      fst (login_whistleblower e st now tid receipt using_tor) = Inl InvalidAuthentication \<and>
      internaltips (snd (login_whistleblower e st now tid receipt using_tor)) =
        internaltips st) \<and>
   (filter (\<lambda>w. it_receipt_hash w = hash_password e receipt (receipt_salt t) \<and> it_tid w = tid)
      (internaltips st) = [wbtip] \<and>
    (using_tor \<or> flags t ''https_whistleblower'' = Some True) \<longrightarrow>
      fst (login_whistleblower e st now tid receipt using_tor) = Inr (it_id wbtip) \<and>
      internaltips (snd (login_whistleblower e st now tid receipt using_tor)) =
        map (\<lambda>w. if it_id w = it_id wbtip then w\<lparr>it_last_access := now\<rparr> else w)
          (internaltips st) \<and>
      wbtip\<lparr>it_last_access := now\<rparr> \<in>
        set (internaltips (snd (login_whistleblower e st now tid receipt using_tor))) \<and>
      (\<exists>resp st'.
         ReceiptAuthHandler_post e st now rnd sid
           \<lparr>req_tid = tid, client_using_tor = using_tor, client_ip = cip,
            req_username = username, req_password = password, req_token = token,
            req_receipt = receipt\<rparr> = (Inr resp, st') \<and>
         map_of resp ''role'' = Some (JStr ''whistleblower'') \<and>
         map_of resp ''user_id'' = Some (JStr (it_id wbtip)) \<and>
         sessions st' sid =
           Some \<lparr>s_id = sid, s_tid = tid, user_id = it_id wbtip,
                 user_role = ''whistleblower'', user_status = ''Enabled'',
                 s_expiration = now + session_lifetime e\<rparr> \<and>
         internaltips st' =
           map (\<lambda>w. if it_id w = it_id wbtip then w\<lparr>it_last_access := now\<rparr> else w)
             (internaltips st)))"
proof (intro conjI impI)
  let ?m = "filter (\<lambda>w. it_receipt_hash w = hash_password e receipt (receipt_salt t) \<and>
                         it_tid w = tid) (internaltips st)"
  show "events (snd (login_whistleblower e st now tid receipt using_tor)) =
          events st @ [HashPassword receipt (receipt_salt t)]"
    using assms
    by (auto simp: login_whistleblower_def db_get_wbtip_by_receipt_eq
             split: sum.splits option.splits)
  {
    assume "?m = []"
    from login_whistleblower_no_match [OF assms this, of now using_tor]
    show "fst (login_whistleblower e st now tid receipt using_tor) = Inl InvalidAuthentication"
      and "internaltips (snd (login_whistleblower e st now tid receipt using_tor)) =
             internaltips st"
      by simp_all
  }
  assume h: "?m = [wbtip] \<and> (using_tor \<or> flags t ''https_whistleblower'' = Some True)"
  then have m: "?m = [wbtip]"
    and p: "using_tor \<or> flags t ''https_whistleblower'' = Some True"
    by simp_all
  note ok = login_whistleblower_match [OF assms m p, of now]
  show "fst (login_whistleblower e st now tid receipt using_tor) = Inr (it_id wbtip)"
    by (simp add: ok)
  show "internaltips (snd (login_whistleblower e st now tid receipt using_tor)) =
          map (\<lambda>w. if it_id w = it_id wbtip then w\<lparr>it_last_access := now\<rparr> else w)
            (internaltips st)"
    by (simp add: ok)
  have "wbtip \<in> set ?m" by (simp add: m)
  then have "wbtip \<in> set (internaltips st)" by simp
  then have "(if it_id wbtip = it_id wbtip then wbtip\<lparr>it_last_access := now\<rparr> else wbtip) \<in>
               (\<lambda>w. if it_id w = it_id wbtip then w\<lparr>it_last_access := now\<rparr> else w) `
                 set (internaltips st)"
    by (rule imageI)
  then show "wbtip\<lparr>it_last_access := now\<rparr> \<in>
               set (internaltips (snd (login_whistleblower e st now tid receipt using_tor)))"
    by (simp add: ok)
  from throttle_eq [of st rnd] obtain d where
    d: "throttle st rnd =
          (Inr d, st\<lparr>events := events st @ (if d \<noteq> 0 then [DeferredSleep d] else [])\<rparr>)"
    by blast
  let ?st1 = "st\<lparr>events := events st @ (if d \<noteq> 0 then [DeferredSleep d] else [])\<rparr>"
  have c1: "tenant_cache ?st1 tid = Some t" using assms by simp
  have m1: "filter (\<lambda>w. it_receipt_hash w = hash_password e receipt (receipt_salt t) \<and>
                         it_tid w = tid) (internaltips ?st1) = [wbtip]"
    using m by simp
  note ok1 = login_whistleblower_match [OF c1 m1 p, of now]
  show "\<exists>resp st'.
         ReceiptAuthHandler_post e st now rnd sid
           \<lparr>req_tid = tid, client_using_tor = using_tor, client_ip = cip,
            req_username = username, req_password = password, req_token = token,
            req_receipt = receipt\<rparr> = (Inr resp, st') \<and>
         map_of resp ''role'' = Some (JStr ''whistleblower'') \<and>
         map_of resp ''user_id'' = Some (JStr (it_id wbtip)) \<and>
         sessions st' sid =
           Some \<lparr>s_id = sid, s_tid = tid, user_id = it_id wbtip,
                 user_role = ''whistleblower'', user_status = ''Enabled'',
                 s_expiration = now + session_lifetime e\<rparr> \<and>
         internaltips st' =
           map (\<lambda>w. if it_id w = it_id wbtip then w\<lparr>it_last_access := now\<rparr> else w)
             (internaltips st)"
    by (simp add: ReceiptAuthHandler_post_def d ok1 new_session_def Let_def)
qed

theorem whistleblower_login_witness:
  "login_whistleblower demo_env demo_state 100 5 ''R1'' True =
     (Inr ''t1'',
      demo_state\<lparr>events := [HashPassword ''R1'' ''S''],
                  internaltips := [tip_one\<lparr>it_last_access := 100\<rparr>]\<rparr>) \<and>
   login_whistleblower demo_env demo_state 100 5 ''R2'' True =
     (Inl InvalidAuthentication,
      demo_state\<lparr>events := [HashPassword ''R2'' ''S''], failed_login_attempts := 5\<rparr>) \<and>
   (\<exists>resp st'.
      ReceiptAuthHandler_post demo_env demo_state 100 7 ''sid''
        \<lparr>req_tid = 5, client_using_tor = True, client_ip = ''10.0.0.5'',
         req_username = [], req_password = [], req_token = [], req_receipt = ''R1''\<rparr> =
        (Inr resp, st') \<and>
      map_of resp ''role'' = Some (JStr ''whistleblower''))"
proof -
  have c: "tenant_cache demo_state 5 = Some tenant_five"
    by (simp add: demo_defs)
  have m: "filter (\<lambda>w. it_receipt_hash w = hash_password demo_env ''R1'' (receipt_salt tenant_five) \<and>
                       it_tid w = 5) (internaltips demo_state) = [tip_one]"
    by (simp add: demo_defs)
  have n: "filter (\<lambda>w. it_receipt_hash w = hash_password demo_env ''R2'' (receipt_salt tenant_five) \<and>
                       it_tid w = 5) (internaltips demo_state) = []"
    by (simp add: demo_defs)
  from whistleblower_login [OF c, of demo_env 100 "''R1''" True tip_one 7 "''sid''"
         "''10.0.0.5''" "[]" "[]" "[]"] m
  have a: "\<exists>resp st'.
      ReceiptAuthHandler_post demo_env demo_state 100 7 ''sid''
        \<lparr>req_tid = 5, client_using_tor = True, client_ip = ''10.0.0.5'',
         req_username = [], req_password = [], req_token = [], req_receipt = ''R1''\<rparr> =
        (Inr resp, st') \<and>
      map_of resp ''role'' = Some (JStr ''whistleblower'')"
    by blast
  have b: "login_whistleblower demo_env demo_state 100 5 ''R1'' True =
     (Inr ''t1'',
      demo_state\<lparr>events := [HashPassword ''R1'' ''S''],
                  internaltips := [tip_one\<lparr>it_last_access := 100\<rparr>]\<rparr>)"
    by (simp add: login_defs demo_defs)
  from whistleblower_login [OF c, of demo_env 100 "''R2''" True tip_one 7 "''sid''"
         "''10.0.0.5''" "[]" "[]" "[]"] n
  have f: "fst (login_whistleblower demo_env demo_state 100 5 ''R2'' True) =
             Inl InvalidAuthentication"
    by blast
  have b': "snd (login_whistleblower demo_env demo_state 100 5 ''R2'' True) =
      demo_state\<lparr>events := [HashPassword ''R2'' ''S''], failed_login_attempts := 5\<rparr>"
    by (simp add: login_defs demo_defs)
  from f b' have g: "login_whistleblower demo_env demo_state 100 5 ''R2'' True =
     (Inl InvalidAuthentication,
      demo_state\<lparr>events := [HashPassword ''R2'' ''S''], failed_login_attempts := 5\<rparr>)"
    by (simp add: prod_eq_iff)
  from a b g show ?thesis by blast
qed

section \<open>The address filter\<close>

lemma login_ip_filter_eq:
  assumes "tenant_cache st tid = Some t"
    and "flags t ''ip_filter_authenticated_enable'' = Some True"
    and "parse_csv_ip_ranges_to_ip_networks e (ip_filter_authenticated t) = Some ip_networks"
    and "ip_address_of e cip = Some a"
  shows "login_ip_filter e st tid cip =
           (if is_loopback a \<or> (\<exists>n \<in> set ip_networks. ip_in_network a n)
            then Inr () else Inl AccessLocationInvalid)"
  using assms by (simp add: login_ip_filter_def tenant_flag_def login_for_networks_eq)

lemma login_ip_filter_events [simp]:
  "login_ip_filter e (st\<lparr>events := evs\<rparr>) tid cip = login_ip_filter e st tid cip"
  by (simp add: login_ip_filter_def split: sum.splits option.splits)

text \<open>
  C7. In a tenant that filters by address, with an allow-list and a client address
  that parse: the check passes for a loopback address whatever the list holds, passes
  for an address inside one of the ranges, and fails with
  \<^verbatim>\<open>AccessLocationInvalid\<close> for any other address. A staff login whose credentials
  resolve to a principal and whose network is allowed ends accordingly.
\<close>

theorem login_address_filter:
  assumes "tenant_cache st tid = Some t"
    and "flags t ''ip_filter_authenticated_enable'' = Some True"
    and "parse_csv_ip_ranges_to_ip_networks e (ip_filter_authenticated t) = Some ip_networks"
    and "ip_address_of e cip = Some a"
  shows
  "(is_loopback a \<longrightarrow> login_ip_filter e st tid cip = Inr ()) \<and>
   (\<not> is_loopback a \<and> (\<forall>n \<in> set ip_networks. \<not> ip_in_network a n) \<longrightarrow>
      login_ip_filter e st tid cip = Inl AccessLocationInvalid) \<and>
   ((\<exists>n \<in> set ip_networks. ip_in_network a n) \<longrightarrow> login_ip_filter e st tid cip = Inr ()) \<and>
   (fst (login_find_user e st tid username password token) = Inr (Some usr) \<and>
    (using_tor \<or> flags t (''https_'' @ u_role usr) = Some True) \<longrightarrow>
      fst (login e st now tid username password using_tor cip token) =
        (if is_loopback a \<or> (\<exists>n \<in> set ip_networks. ip_in_network a n)
         then Inr (u_id usr, u_state usr, u_role usr, u_password_change_needed usr)
         else Inl AccessLocationInvalid))"
proof (intro conjI impI)
  note eq = login_ip_filter_eq [OF assms]
  show "is_loopback a \<Longrightarrow> login_ip_filter e st tid cip = Inr ()"
    by (simp add: eq)
  show "\<not> is_loopback a \<and> (\<forall>n \<in> set ip_networks. \<not> ip_in_network a n) \<Longrightarrow>
          login_ip_filter e st tid cip = Inl AccessLocationInvalid"
    by (simp add: eq)
  show "\<exists>n \<in> set ip_networks. ip_in_network a n \<Longrightarrow> login_ip_filter e st tid cip = Inr ()"
    by (simp add: eq)
  assume h: "fst (login_find_user e st tid username password token) = Inr (Some usr) \<and>
             (using_tor \<or> flags t (''https_'' @ u_role usr) = Some True)"
  obtain r st1 where p: "login_find_user e st tid username password token = (r, st1)"
    by (cases "login_find_user e st tid username password token")
  from p have s: "st1 = snd (login_find_user e st tid username password token)" by simp
  from p h have r: "r = Inr (Some usr)" by simp
  have fl: "tenant_flag st1 tid (''https_'' @ u_role usr) =
              tenant_flag st tid (''https_'' @ u_role usr)"
    by (simp only: s tenant_flag_find_user)
  have ip: "login_ip_filter e st1 tid cip = login_ip_filter e st tid cip"
    by (simp add: s login_find_user_state)
  from h have "using_tor \<or> tenant_flag st tid (''https_'' @ u_role usr) = Inr True"
    using assms(1) by (auto simp: tenant_flag_def)
  then show "fst (login e st now tid username password using_tor cip token) =
        (if is_loopback a \<or> (\<exists>n \<in> set ip_networks. ip_in_network a n)
         then Inr (u_id usr, u_state usr, u_role usr, u_password_change_needed usr)
         else Inl AccessLocationInvalid)"
    using p r fl ip eq by (auto simp: login_def)
qed

theorem login_address_filter_witness:
  "is_loopback (IPv4Address 0x7F000001) \<and>
   \<not> ip_in_network (IPv4Address 0x7F000001) (IPv4Network 0x0A000000 24) \<and>
   fst (login demo_env demo_state 100 5 ''alice'' ''p@ss'' False ''127.0.0.1'' []) =
     Inr (''u2'', ''enabled'', ''admin'', True) \<and>
   \<not> is_loopback (IPv4Address 0xC0A80101) \<and>
   \<not> ip_in_network (IPv4Address 0xC0A80101) (IPv4Network 0x0A000000 24) \<and>
   fst (login demo_env demo_state 100 5 ''alice'' ''p@ss'' False ''192.168.1.1'' []) =
     Inl AccessLocationInvalid \<and>
   ip_in_network (IPv4Address 0x0A000005) (IPv4Network 0x0A000000 24) \<and>
   fst (login demo_env demo_state 100 5 ''alice'' ''p@ss'' False ''10.0.0.5'' []) =
     Inr (''u2'', ''enabled'', ''admin'', True)"
proof -
  have c: "tenant_cache demo_state 5 = Some tenant_five"
    by (simp add: demo_defs)
  have f: "flags tenant_five ''ip_filter_authenticated_enable'' = Some True"
    by (simp add: demo_defs)
  have n: "parse_csv_ip_ranges_to_ip_networks demo_env (ip_filter_authenticated tenant_five) =
             Some [IPv4Network 0x0A000000 24]"
    by (simp add: demo_defs)
  have a1: "ip_address_of demo_env ''127.0.0.1'' = Some (IPv4Address 0x7F000001)"
    by (simp add: demo_defs)
  have a2: "ip_address_of demo_env ''192.168.1.1'' = Some (IPv4Address 0xC0A80101)"
    by (simp add: demo_defs)
  have a3: "ip_address_of demo_env ''10.0.0.5'' = Some (IPv4Address 0x0A000005)"
    by (simp add: demo_defs)
  have u: "fst (login_find_user demo_env demo_state 5 ''alice'' ''p@ss'' []) =
             Inr (Some alice_five)"
    by (simp add: login_defs demo_defs)
  have w: "flags tenant_five (''https_'' @ u_role alice_five) = Some True"
    by (simp add: demo_defs)
  have l1: "is_loopback (IPv4Address 0x7F000001)"
    by (simp add: netmask4_def mask_eq_exp_minus_1)
  have l2: "\<not> is_loopback (IPv4Address 0xC0A80101)"
    by (simp add: netmask4_def mask_eq_exp_minus_1)
  have i1: "\<not> ip_in_network (IPv4Address 0x7F000001) (IPv4Network 0x0A000000 24)"
    by (simp add: netmask4_def mask_eq_exp_minus_1)
  have i2: "\<not> ip_in_network (IPv4Address 0xC0A80101) (IPv4Network 0x0A000000 24)"
    by (simp add: netmask4_def mask_eq_exp_minus_1)
  have i3: "ip_in_network (IPv4Address 0x0A000005) (IPv4Network 0x0A000000 24)"
    by (simp add: netmask4_def mask_eq_exp_minus_1)
  have r1: "fst (login demo_env demo_state 100 5 ''alice'' ''p@ss'' False ''127.0.0.1'' []) =
     Inr (''u2'', ''enabled'', ''admin'', True)"
    using login_address_filter [OF c f n a1, of "''alice''" "''p@ss''" "[]" alice_five False 100]
      u w l1
    by (simp add: alice_five_def)
  have r2: "fst (login demo_env demo_state 100 5 ''alice'' ''p@ss'' False ''192.168.1.1'' []) =
     Inl AccessLocationInvalid"
    using login_address_filter [OF c f n a2, of "''alice''" "''p@ss''" "[]" alice_five False 100]
      u w l2 i2
    by simp
  have r3: "fst (login demo_env demo_state 100 5 ''alice'' ''p@ss'' False ''10.0.0.5'' []) =
     Inr (''u2'', ''enabled'', ''admin'', True)"
    using login_address_filter [OF c f n a3, of "''alice''" "''p@ss''" "[]" alice_five False 100]
      u w i3
    by (simp add: alice_five_def)
  from l1 l2 i1 i2 i3 r1 r2 r3 show ?thesis by blast
qed

section \<open>The order of sleep and verification, and the answers\<close>

lemma login_candidates_events [simp]:
  "login_candidates (st\<lparr>events := evs\<rparr>) tid username = login_candidates st tid username"
  by (simp add: login_candidates_def)

lemma AuthenticationHandler_post_login:
  assumes "throttle st rnd = (Inr d, st1)"
  shows "events (snd (AuthenticationHandler_post e st now rnd sid req)) =
           events (snd (login e st1 now (req_tid req) (req_username req) (req_password req)
                          (client_using_tor req) (client_ip req) (req_token req)))"
    and "failed_login_attempts (snd (AuthenticationHandler_post e st now rnd sid req)) =
           failed_login_attempts
             (snd (login e st1 now (req_tid req) (req_username req) (req_password req)
                     (client_using_tor req) (client_ip req) (req_token req)))"
    and "fst (AuthenticationHandler_post e st now rnd sid req) = Inl err \<longleftrightarrow>
           fst (login e st1 now (req_tid req) (req_username req) (req_password req)
                  (client_using_tor req) (client_ip req) (req_token req)) = Inl err"
  using assms
  by (auto simp: AuthenticationHandler_post_def new_session_def Let_def
           split: prod.splits sum.splits)

lemma ReceiptAuthHandler_post_login:
  assumes "throttle st rnd = (Inr d, st1)"
  shows "events (snd (ReceiptAuthHandler_post e st now rnd sid req)) =
           events (snd (login_whistleblower e st1 now (req_tid req) (req_receipt req)
                          (client_using_tor req)))"
    and "failed_login_attempts (snd (ReceiptAuthHandler_post e st now rnd sid req)) =
           failed_login_attempts
             (snd (login_whistleblower e st1 now (req_tid req) (req_receipt req)
                     (client_using_tor req)))"
    and "fst (ReceiptAuthHandler_post e st now rnd sid req) = Inl err \<longleftrightarrow>
           fst (login_whistleblower e st1 now (req_tid req) (req_receipt req)
                  (client_using_tor req)) = Inl err"
  using assms
  by (auto simp: ReceiptAuthHandler_post_def new_session_def Let_def
           split: prod.splits sum.splits)

lemma login_whistleblower_events:
  "events (snd (login_whistleblower e st now tid receipt using_tor)) =
     events st @
       (case tenant_cache st tid of
          None \<Rightarrow> []
        | Some t \<Rightarrow> [HashPassword receipt (receipt_salt t)])"
  by (auto simp: login_whistleblower_def db_get_wbtip_by_receipt_def Let_def
           split: sum.splits option.splits)

text \<open>
  C8. In both handlers the delay is drawn from the failure counter as the request
  finds it and is awaited, when it is not zero, before the first call of the verifier
  or of the receipt hash; it is at least 5 when the counter is at least 5, whether the
  login then succeeds or fails. A failure of the request itself shows only in the
  counter that the request leaves behind, from which the next delay is drawn.
\<close>

theorem throttle_before_verification:
  "\<exists>d. random_login_delay st rnd = Inr d \<and>
       (5 \<le> failed_login_attempts st \<longrightarrow> 5 \<le> d) \<and>
       events (snd (AuthenticationHandler_post e st now rnd sid req)) =
         events st @ (if d \<noteq> 0 then [DeferredSleep d] else []) @
           (if req_token req \<noteq> [] then []
            else map (\<lambda>u. CheckPassword (req_password req) (u_salt u) (u_password u))
                   (login_candidates st (req_tid req) (req_username req))) \<and>
       failed_login_attempts (snd (AuthenticationHandler_post e st now rnd sid req)) =
         failed_login_attempts st +
           (if fst (AuthenticationHandler_post e st now rnd sid req) = Inl InvalidAuthentication
            then 1 else 0) \<and>
       events (snd (ReceiptAuthHandler_post e st now rnd sid req)) =
         events st @ (if d \<noteq> 0 then [DeferredSleep d] else []) @
           (case tenant_cache st (req_tid req) of
              None \<Rightarrow> []
            | Some t \<Rightarrow> [HashPassword (req_receipt req) (receipt_salt t)]) \<and>
       failed_login_attempts (snd (ReceiptAuthHandler_post e st now rnd sid req)) =
         failed_login_attempts st +
           (if fst (ReceiptAuthHandler_post e st now rnd sid req) = Inl InvalidAuthentication
            then 1 else 0)"
proof -
  from throttle_eq [of st rnd] obtain d where
    d: "random_login_delay st rnd = Inr d" "5 \<le> failed_login_attempts st \<longrightarrow> 5 \<le> d"
    and t: "throttle st rnd =
              (Inr d, st\<lparr>events := events st @ (if d \<noteq> 0 then [DeferredSleep d] else [])\<rparr>)"
    by blast
  let ?st1 = "st\<lparr>events := events st @ (if d \<noteq> 0 then [DeferredSleep d] else [])\<rparr>"
  note a = AuthenticationHandler_post_login [OF t, of e now sid req]
  note b = ReceiptAuthHandler_post_login [OF t, of e now sid req]
  have 1: "events (snd (AuthenticationHandler_post e st now rnd sid req)) =
         events st @ (if d \<noteq> 0 then [DeferredSleep d] else []) @
           (if req_token req \<noteq> [] then []
            else map (\<lambda>u. CheckPassword (req_password req) (u_salt u) (u_password u))
                   (login_candidates st (req_tid req) (req_username req)))"
    by (simp add: a(1) login_events login_find_user_state)
  have 2: "failed_login_attempts (snd (AuthenticationHandler_post e st now rnd sid req)) =
         failed_login_attempts st +
           (if fst (AuthenticationHandler_post e st now rnd sid req) = Inl InvalidAuthentication
            then 1 else 0)"
    by (simp add: a(2) a(3) login_counter login_invalid_iff)
  have 3: "events (snd (ReceiptAuthHandler_post e st now rnd sid req)) =
         events st @ (if d \<noteq> 0 then [DeferredSleep d] else []) @
           (case tenant_cache st (req_tid req) of
              None \<Rightarrow> []
            | Some t \<Rightarrow> [HashPassword (req_receipt req) (receipt_salt t)])"
    by (simp add: b(1) login_whistleblower_events)
  have 4: "failed_login_attempts (snd (ReceiptAuthHandler_post e st now rnd sid req)) =
         failed_login_attempts st +
           (if fst (ReceiptAuthHandler_post e st now rnd sid req) = Inl InvalidAuthentication
            then 1 else 0)"
    by (simp add: b(2) b(3) login_whistleblower_counter)
  from d 1 2 3 4 show ?thesis by blast
qed

theorem throttle_before_verification_witness:
  "\<exists>d. random_login_delay (demo_state\<lparr>failed_login_attempts := 6\<rparr>) 7 = Inr d \<and> 5 \<le> d \<and>
       (\<exists>resp st'.
          AuthenticationHandler_post demo_env (demo_state\<lparr>failed_login_attempts := 6\<rparr>) 100 7
            ''sid''
            \<lparr>req_tid = 5, client_using_tor = True, client_ip = ''10.0.0.5'',
             req_username = ''bob'', req_password = ''secret'', req_token = [],
             req_receipt = []\<rparr> = (Inr resp, st') \<and>
          events st' = [DeferredSleep d, CheckPassword ''secret'' ''s3'' ''s3secret''] \<and>
          failed_login_attempts st' = 6)"
proof -
  let ?st = "demo_state\<lparr>failed_login_attempts := 6\<rparr>"
  let ?req = "\<lparr>req_tid = 5, client_using_tor = True, client_ip = ''10.0.0.5'',
             req_username = ''bob'', req_password = ''secret'', req_token = [],
             req_receipt = []\<rparr>"
  from throttle_before_verification [of ?st 7 demo_env 100 "''sid''" ?req] obtain d where
    d: "random_login_delay ?st 7 = Inr d" "5 \<le> failed_login_attempts ?st \<longrightarrow> 5 \<le> d"
    and ev: "events (snd (AuthenticationHandler_post demo_env ?st 100 7 ''sid'' ?req)) =
         events ?st @ (if d \<noteq> 0 then [DeferredSleep d] else []) @
           (if req_token ?req \<noteq> [] then []
            else map (\<lambda>u. CheckPassword (req_password ?req) (u_salt u) (u_password u))
                   (login_candidates ?st (req_tid ?req) (req_username ?req)))"
    and c: "failed_login_attempts (snd (AuthenticationHandler_post demo_env ?st 100 7 ''sid'' ?req)) =
         failed_login_attempts ?st +
           (if fst (AuthenticationHandler_post demo_env ?st 100 7 ''sid'' ?req) =
                 Inl InvalidAuthentication then 1 else 0)"
    by blast
  have five: "5 \<le> d" using d(2) by (simp add: demo_defs)
  have dv: "d = 13" using d(1)
    by (simp add: random_login_delay_def randint_def demo_defs)
  have r: "\<exists>resp. fst (AuthenticationHandler_post demo_env ?st 100 7 ''sid'' ?req) = Inr resp"
    by (simp add: AuthenticationHandler_post_def throttle_def random_login_delay_def
          randint_def new_session_def login_defs demo_defs)
  then obtain resp where
    resp: "fst (AuthenticationHandler_post demo_env ?st 100 7 ''sid'' ?req) = Inr resp"
    by blast
  have e1: "events (snd (AuthenticationHandler_post demo_env ?st 100 7 ''sid'' ?req)) =
              [DeferredSleep d, CheckPassword ''secret'' ''s3'' ''s3secret'']"
    using ev five by (simp add: login_candidates_def demo_defs)
  have c1: "failed_login_attempts (snd (AuthenticationHandler_post demo_env ?st 100 7 ''sid'' ?req))
              = 6"
    using c resp by (simp add: demo_defs)
  have "AuthenticationHandler_post demo_env ?st 100 7 ''sid'' ?req =
          (Inr resp, snd (AuthenticationHandler_post demo_env ?st 100 7 ''sid'' ?req))"
    using resp by (simp add: prod_eq_iff)
  with d(1) five e1 c1 show ?thesis by blast
qed

text \<open>
  C10. The answer of the session refresh carries \<^verbatim>\<open>password_change_needed\<close>
  false for every session, whereas the answer of a login carries the flag stored with
  the principal that the credentials resolved to.
\<close>

theorem password_change_needed_reported:
  "map_of (SessionHandler_get current_user) ''password_change_needed'' = Some (JBool False) \<and>
   (fst (AuthenticationHandler_post e st now rnd sid req) = Inr resp \<longrightarrow>
      (\<exists>usr. fst (login_find_user e (snd (throttle st rnd)) (req_tid req) (req_username req)
                    (req_password req) (req_token req)) = Inr (Some usr) \<and>
             map_of resp ''password_change_needed'' =
               Some (JBool (u_password_change_needed usr))))"
proof (intro conjI impI)
  show "map_of (SessionHandler_get current_user) ''password_change_needed'' =
          Some (JBool False)"
    by (simp add: SessionHandler_get_def)
next
  assume h: "fst (AuthenticationHandler_post e st now rnd sid req) = Inr resp"
  from throttle_eq [of st rnd] obtain d st1 where t: "throttle st rnd = (Inr d, st1)"
    by blast
  obtain r st2 where f: "login_find_user e st1 (req_tid req) (req_username req)
                           (req_password req) (req_token req) = (r, st2)"
    by (cases "login_find_user e st1 (req_tid req) (req_username req)
                 (req_password req) (req_token req)")
  from h t f show "\<exists>usr. fst (login_find_user e (snd (throttle st rnd)) (req_tid req)
                    (req_username req) (req_password req) (req_token req)) = Inr (Some usr) \<and>
             map_of resp ''password_change_needed'' =
               Some (JBool (u_password_change_needed usr))"
    by (auto simp: AuthenticationHandler_post_def login_def new_session_def Let_def
             split: sum.splits option.splits if_splits prod.splits)
qed

theorem password_change_needed_reported_witness:
  "\<exists>resp st' s.
     AuthenticationHandler_post demo_env demo_state 100 7 ''sid''
       \<lparr>req_tid = 5, client_using_tor = True, client_ip = ''10.0.0.5'',
        req_username = ''alice'', req_password = ''p@ss'', req_token = [],
        req_receipt = []\<rparr> = (Inr resp, st') \<and>
     u_password_change_needed alice_five \<and>
     map_of resp ''password_change_needed'' = Some (JBool True) \<and>
     sessions st' ''sid'' = Some s \<and>
     map_of (SessionHandler_get s) ''password_change_needed'' = Some (JBool False)"
proof -
  let ?req = "\<lparr>req_tid = 5, client_using_tor = True, client_ip = ''10.0.0.5'',
        req_username = ''alice'', req_password = ''p@ss'', req_token = [],
        req_receipt = []\<rparr>"
  let ?out = "AuthenticationHandler_post demo_env demo_state 100 7 ''sid'' ?req"
  have r: "\<exists>resp. fst ?out = Inr resp"
    by (simp add: AuthenticationHandler_post_def throttle_def random_login_delay_def
          randint_def new_session_def login_defs demo_defs)
  then obtain resp where resp: "fst ?out = Inr resp" by blast
  have s: "\<exists>s. sessions (snd ?out) ''sid'' = Some s"
    by (simp add: AuthenticationHandler_post_def throttle_def random_login_delay_def
          randint_def new_session_def login_defs demo_defs)
  then obtain s where s: "sessions (snd ?out) ''sid'' = Some s" by blast
  have u: "fst (login_find_user demo_env (snd (throttle demo_state 7)) 5 ''alice'' ''p@ss'' []) =
             Inr (Some alice_five)"
    by (simp add: throttle_def random_login_delay_def randint_def login_defs demo_defs)
  from password_change_needed_reported [of s demo_env demo_state 100 7 "''sid''" ?req resp]
    resp u
  have p: "map_of resp ''password_change_needed'' = Some (JBool True) \<and>
           map_of (SessionHandler_get s) ''password_change_needed'' = Some (JBool False)"
    by (simp add: alice_five_def)
  have q: "u_password_change_needed alice_five" by (simp add: alice_five_def)
  have "?out = (Inr resp, snd ?out)" using resp by (simp add: prod_eq_iff)
  with p q s show ?thesis by blast
qed

end
